theory Spec2Isabelle
  imports Complex_Main
begin

section \<open>Beamline scripts of xanespy: a shallow embedding of beamlines.py\<close>

text \<open>
  The module prepares text scripts for two transmission X-ray microscopes. Its classes
  \<^verbatim>\<open>Zoneplate\<close> and \<^verbatim>\<open>Detector\<close> predict the position of an optic from the beam
  energy, and its functions \<^verbatim>\<open>write_scaninfo_header\<close>, \<^verbatim>\<open>ssrl6_xanes_script\<close> and
  \<^verbatim>\<open>sector8_xanes_script\<close> write the scripts.

  Conventions of the embedding.
  \<^item> Python is duck-typed: the arithmetic of the module works on whatever number type the
    caller passes. The number type is therefore a type variable \<open>'a\<close>, constrained only by
    the operations a function uses.
  \<^item> A text file is the list of the lines written to it, each without its final newline.
    Every \<^verbatim>\<open>write\<close> of the module writes whole lines.
  \<^item> An exception is a value of type \<open>error\<close>; a function that can raise returns a sum.
  \<^item> \<^verbatim>\<open>'{:.2f}'\<close> and \<^verbatim>\<open>'{:07.1f}'\<close> render a number of type \<open>'a\<close>; the two renderings
    are passed to the script functions as a record \<open>float_format\<close>.
\<close>

subsection \<open>Exceptions\<close>

datatype error =
    ValueError string
  | ZeroDivisionError
  | NotImplementedError string
  | IndexError
  | NameError
  | AttributeError string
  | OverflowError string

subsection \<open>Rendering integers\<close>

type_synonym line = string

definition digit :: "nat \<Rightarrow> char" where
  "digit d = ''0123456789'' ! d"

text \<open>\<^verbatim>\<open>str(n)\<close> for a natural number.\<close>

fun str_nat :: "nat \<Rightarrow> string" where
  "str_nat n = (if n < 10 then [digit n] else str_nat (n div 10) @ [digit (n mod 10)])"

declare str_nat.simps [simp del]

text \<open>\<^verbatim>\<open>'{}'.format(i)\<close> and \<^verbatim>\<open>'{:d}'.format(i)\<close> for an integer.\<close>

definition str_int :: "int \<Rightarrow> string" where
  "str_int i = (if i < 0 then CHR ''-'' # str_nat (nat (- i)) else str_nat (nat i))"

text \<open>Zeros on the left up to a width, as the \<^verbatim>\<open>0\<close> flag of a format specification.\<close>

definition zfill :: "nat \<Rightarrow> string \<Rightarrow> string" where
  "zfill w s = replicate (w - length s) CHR ''0'' @ s"

text \<open>\<^verbatim>\<open>'{:03d}'.format(i)\<close>: the sign comes first and counts in the width.\<close>

definition fmt_03d :: "int \<Rightarrow> string" where
  "fmt_03d i = (if i < 0 then CHR ''-'' # zfill 2 (str_nat (nat (- i))) else zfill 3 (str_nat (nat i)))"

subsection \<open>Positions and calibration points\<close>

text \<open>
  \<^verbatim>\<open>position\<close> is the named tuple \<^verbatim>\<open>(x, y, z)\<close> of the utilities module;
  \<^verbatim>\<open>ZoneplatePoint\<close> is the named tuple \<^verbatim>\<open>(x, y, z, energy)\<close>.
\<close>

record 'a position =
  pos_x :: 'a
  pos_y :: 'a
  pos_z :: 'a

record 'a ZoneplatePoint =
  zp_x :: 'a
  zp_y :: 'a
  zp_z :: 'a
  zp_energy :: 'a

text \<open>The two attributes a \<^verbatim>\<open>Zoneplate\<close> object holds after construction.\<close>

record 'a Zoneplate =
  start :: "'a ZoneplatePoint"
  step :: "'a position"














text \<open>\<^verbatim>\<open>Zoneplate.position(self, energy)\<close>.\<close>

definition Zoneplate_position :: "'a::{plus,minus,times} Zoneplate \<Rightarrow> 'a \<Rightarrow> 'a position" where
  "Zoneplate_position self energy =
     \<lparr>pos_x = zp_x (start self) + pos_x (step self) * (energy - zp_energy (start self)),
      pos_y = zp_y (start self) + pos_y (step self) * (energy - zp_energy (start self)),
      pos_z = zp_z (start self) + pos_z (step self) * (energy - zp_energy (start self))\<rparr>"


text \<open>\<^verbatim>\<open>Zoneplate.z_position(self, energy)\<close> always raises.\<close>

definition Zoneplate_z_position :: "'a Zoneplate \<Rightarrow> 'a \<Rightarrow> error + 'a" where
  "Zoneplate_z_position self energy = Inl (NotImplementedError ''Use position().z instead'')"

subsection \<open>The scan-info header\<close>

text \<open>\<^verbatim>\<open>f.write(s)\<close> for a string \<open>s\<close> that is one line with its newline.\<close>

definition fwrite :: "line \<Rightarrow> line list \<Rightarrow> line list" where
  "fwrite l f = f @ [l]"

text \<open>
  \<^verbatim>\<open>write_scaninfo_header(f, abba_mode, repetitions, ref_repetitions)\<close>: twenty writes,
  in the order of the source. The result is the content of \<open>f\<close> afterwards.
\<close>

definition write_scaninfo_header :: "line list \<Rightarrow> bool \<Rightarrow> int \<Rightarrow> int \<Rightarrow> line list" where
  "write_scaninfo_header f abba_mode repetitions ref_repetitions =
    (fwrite ''FILES''
    (fwrite ''MOSAICCENTRALTILE   1''
    (fwrite ''MOSAICOVERLAP 0.20''
    (fwrite ''MOSAICRIGHT   1''
    (fwrite ''MOSAICLEFT   1''
    (fwrite ''MOSAICDOWN   1''
    (fwrite ''MOSAICUP   1''
    (fwrite ''REFAVERAGEONTHEFLY 0''
    (fwrite (''REFABBA '' @ str_int (if abba_mode then 1 else 0))
    (fwrite (''REF4EVERYEXPOSURES   '' @ str_int repetitions)
    (fwrite (''REFNEXPOSURES  '' @ str_int ref_repetitions)
    (fwrite ''AVERAGEONTHEFLY   0''
    (fwrite (''NEXPOSURES   '' @ str_int repetitions)
    (fwrite ''WAITNSECS   0''
    (fwrite ''NREPEATSCAN   1''
    (fwrite ''MULTIEXPOSURE 4''
    (fwrite ''MOSAIC 0''
    (fwrite ''TOMO 0''
    (fwrite ''ENERGY 1''
    (fwrite ''VERSION 1'' f))))))))))))))))))))"

text \<open>The key of a header line: its text up to the first blank.\<close>

definition header_key :: "line \<Rightarrow> string" where
  "header_key l = takeWhile (\<lambda>c. c \<noteq> CHR '' '') l"

subsection \<open>The script for SSRL beamline 6-2c\<close>

text \<open>
  The renderings of a number: \<^verbatim>\<open>'{:.2f}'.format(v)\<close> (also written \<^verbatim>\<open>'{:.02f}'\<close>) and
  \<^verbatim>\<open>'{:07.1f}'.format(v)\<close>.
\<close>

record 'a float_format =
  fmt_2f :: "'a \<Rightarrow> string"
  fmt_07_1f :: "'a \<Rightarrow> string"

text \<open>
  The arguments of \<^verbatim>\<open>ssrl6_xanes_script\<close> other than \<^verbatim>\<open>dest\<close>. \<open>energies\<close> is what
  \<^verbatim>\<open>edge.all_energies()\<close> returns (the class \<^verbatim>\<open>KEdge\<close> is not part of the module);
  an iteration identifier is the string it is rendered as. The integer arguments are
  tested for truth, that is against zero.
\<close>

record 'a ssrl6_args =
  energies :: "'a list"
  zoneplate :: "'a Zoneplate"
  positions :: "'a position list"
  reference_position :: "'a position"
  iterations :: "string list"
  iteration_rest :: int
  frame_rest :: int
  binning :: int
  exposure :: 'a
  repetitions :: int
  ref_repetitions :: int
  abba_mode :: bool

text \<open>The two open files while the script is written.\<close>

record sinks =
  dest :: "line list"
  scaninfo :: "line list"

definition dest_write :: "line list \<Rightarrow> sinks \<Rightarrow> sinks" where
  "dest_write ls s = s\<lparr>dest := dest s @ ls\<rparr>"

definition scaninfo_write :: "line \<Rightarrow> sinks \<Rightarrow> sinks" where
  "scaninfo_write l s = s\<lparr>scaninfo := scaninfo s @ [l]\<rparr>"

definition ref_template :: "'a float_format \<Rightarrow> string \<Rightarrow> 'a \<Rightarrow> int \<Rightarrow> int \<Rightarrow> string" where
  "ref_template F name energy ctr tot =
     ''ref_'' @ name @ ''_'' @ fmt_07_1f F energy @ ''_eV_'' @ fmt_03d ctr @ ''of''
       @ fmt_03d tot @ ''.xrm''"

definition sam_template ::
  "'a float_format \<Rightarrow> string \<Rightarrow> nat \<Rightarrow> 'a \<Rightarrow> int \<Rightarrow> int \<Rightarrow> string" where
  "sam_template F name fov energy ctr tot =
     name @ ''_fov'' @ str_nat fov @ ''_'' @ fmt_07_1f F energy @ ''_eV_'' @ fmt_03d ctr
       @ ''of'' @ fmt_03d tot @ ''.xrm''"

definition pos_template :: "'a float_format \<Rightarrow> 'a position \<Rightarrow> line list" where
  "pos_template F p =
     [''moveto x '' @ fmt_2f F (pos_x p),
      ''moveto y '' @ fmt_2f F (pos_y p),
      ''moveto z '' @ fmt_2f F (pos_z p)]"

definition exposure_str :: "'a float_format \<Rightarrow> 'a ssrl6_args \<Rightarrow> line list" where
  "exposure_str F A =
     [''setexp '' @ fmt_2f F (exposure A), ''setbinning '' @ str_int (binning A)]"

text \<open>
  \<^verbatim>\<open>for rep in range(0, ref_repetitions)\<close>: each round appends a collect line to the
  pending string \<open>ref_s\<close> and writes the file name to the scan-info file at once.
\<close>

fun ref_frames ::
  "'a float_format \<Rightarrow> 'a ssrl6_args \<Rightarrow> string \<Rightarrow> 'a \<Rightarrow> nat list \<Rightarrow> line list \<times> sinks
     \<Rightarrow> line list \<times> sinks" where
  "ref_frames F A fs_name E [] (ref_s, s) = (ref_s, s)"
| "ref_frames F A fs_name E (rep # reps) (ref_s, s) =
     (let xrmfile = ref_template F fs_name E (int rep) (ref_repetitions A)
      in ref_frames F A fs_name E reps
           (ref_s @ [''collect '' @ xrmfile], scaninfo_write xrmfile s))"

text \<open>Lines 210 to 229: the commands of the reference frames, kept in \<open>ref_s\<close>.\<close>

definition reference_block ::
  "'a float_format \<Rightarrow> 'a ssrl6_args \<Rightarrow> string \<Rightarrow> bool \<Rightarrow> 'a \<Rightarrow> sinks \<Rightarrow> line list \<times> sinks" where
  "reference_block F A fs_name ref_first E s =
     (let ref_s = ['';;;; Move to reference position''] @ pos_template F (reference_position A);
          ref_s = (if frame_rest A \<noteq> 0 \<and> ref_first
                   then ref_s @ [''wait '' @ str_int (frame_rest A)] else ref_s);
          ref_s = ref_s @ ['';;;; Collect reference frames''] @ exposure_str F A;
          (ref_s, s) = ref_frames F A fs_name E [0..<nat (ref_repetitions A)] (ref_s, s);
          ref_s = (if frame_rest A \<noteq> 0 \<and> \<not> ref_first
                   then ref_s @ [''wait '' @ str_int (frame_rest A)] else ref_s)
      in (ref_s, s))"

text \<open>\<^verbatim>\<open>for rep in range(0, repetitions)\<close> at one sample position.\<close>

fun sample_frames ::
  "'a float_format \<Rightarrow> 'a ssrl6_args \<Rightarrow> string \<Rightarrow> 'a \<Rightarrow> nat \<Rightarrow> nat list \<Rightarrow> sinks \<Rightarrow> sinks" where
  "sample_frames F A fs_name E pos_idx [] s = s"
| "sample_frames F A fs_name E pos_idx (rep # reps) s =
     (let xrmfile = sam_template F fs_name pos_idx E (int rep) (repetitions A);
          s = dest_write [''collect '' @ xrmfile] s;
          s = scaninfo_write xrmfile s
      in sample_frames F A fs_name E pos_idx reps s)"

text \<open>
  \<^verbatim>\<open>for idx, sam_pos in enumerate(pos_list)\<close>; \<open>n\<close> is \<^verbatim>\<open>len(pos_list)\<close>.
\<close>

fun sample_positions_loop ::
  "'a float_format \<Rightarrow> 'a ssrl6_args \<Rightarrow> string \<Rightarrow> bool \<Rightarrow> 'a \<Rightarrow> nat \<Rightarrow> (nat \<times> 'a position) list
     \<Rightarrow> sinks \<Rightarrow> sinks" where
  "sample_positions_loop F A fs_name ref_first E n [] s = s"
| "sample_positions_loop F A fs_name ref_first E n ((idx, sam_pos) # rest) s =
     (let pos_idx = (if ref_first then idx else n - idx - 1);
          s = dest_write ['';;;; Move to sample position '' @ str_nat pos_idx] s;
          s = dest_write (pos_template F sam_pos) s;
          s = dest_write ['';;;; Collect frames sample position '' @ str_nat pos_idx] s;
          s = dest_write (exposure_str F A) s;
          s = sample_frames F A fs_name E pos_idx [0..<nat (repetitions A)] s
      in sample_positions_loop F A fs_name ref_first E n rest s)"

text \<open>The body of \<^verbatim>\<open>for E in edge.all_energies()\<close>, up to the update of the flag.\<close>

definition energy_step ::
  "'a::{plus,minus,times} float_format \<Rightarrow> 'a ssrl6_args \<Rightarrow> string \<Rightarrow> bool \<Rightarrow> 'a \<Rightarrow> sinks \<Rightarrow> sinks" where
  "energy_step F A fs_name ref_first E s =
     (let s = dest_write ['';;;; set the MONO and the ZP''] s;
          s = dest_write [''sete '' @ fmt_2f F E] s;
          zp_pos = Zoneplate_position (zoneplate A) E;
          s = dest_write [''moveto zpx '' @ fmt_2f F (pos_x zp_pos)] s;
          s = dest_write [''moveto zpy '' @ fmt_2f F (pos_y zp_pos)] s;
          s = dest_write [''moveto zpz '' @ fmt_2f F (pos_z zp_pos)] s;
          (ref_s, s) = reference_block F A fs_name ref_first E s;
          s = (if ref_first then dest_write ref_s s else s);
          pos_list = (if ref_first then positions A else rev (positions A));
          s = sample_positions_loop F A fs_name ref_first E (length pos_list)
                (enumerate 0 pos_list) s;
          s = (if \<not> ref_first then dest_write ref_s s else s)
      in s)"

text \<open>
  \<^verbatim>\<open>for E in edge.all_energies()\<close>, with the flag \<open>ref_first\<close> as loop state; line 260
  updates it.
\<close>

fun energy_loop ::
  "'a::{plus,minus,times} float_format \<Rightarrow> 'a ssrl6_args \<Rightarrow> string \<Rightarrow> bool \<Rightarrow> 'a list \<Rightarrow> sinks
     \<Rightarrow> sinks" where
  "energy_loop F A fs_name ref_first [] s = s"
| "energy_loop F A fs_name ref_first (E # Es) s =
     energy_loop F A fs_name (\<not> (ref_first \<and> abba_mode A)) Es
       (energy_step F A fs_name ref_first E s)"

text \<open>
  \<^verbatim>\<open>for fs_name in iterations\<close>. The loop variable outlives the loop in Python, so it is
  part of the result: \<open>None\<close> while it is unbound.
\<close>

fun iteration_loop ::
  "'a::{plus,minus,times} float_format \<Rightarrow> 'a ssrl6_args \<Rightarrow> string list
     \<Rightarrow> string option \<times> sinks \<Rightarrow> string option \<times> sinks" where
  "iteration_loop F A [] (v, s) = (v, s)"
| "iteration_loop F A (fs_name # rest) (v, s) =
     (let s = dest_write ['';; 2D XANES ;;''] s;
          s = energy_loop F A fs_name True (energies A) s;
          s = dest_write ['';;;; Park at reference position''] s;
          s = dest_write (pos_template F (reference_position A)) s
      in iteration_loop F A rest (Some fs_name, s))"

text \<open>
  The files before and after a call: the content of \<^verbatim>\<open>dest\<close>, and the scan-info file,
  \<open>None\<close> while it does not exist.
\<close>

record files =
  dest_file :: "line list"
  scaninfo_file :: "line list option"

text \<open>
  \<^verbatim>\<open>ssrl6_xanes_script\<close>. The scan-info file is opened with mode \<^verbatim>\<open>'w'\<close>, so it starts
  empty. The test after the loop (lines 266 to 268) stands outside the loop, as in the
  source; \<^verbatim>\<open>iterations[-1]\<close> is the last identifier, and reading the unbound loop variable
  raises \<^verbatim>\<open>NameError\<close>.
\<close>

definition ssrl6_xanes_script ::
  "'a::{plus,minus,times} float_format \<Rightarrow> 'a ssrl6_args \<Rightarrow> files \<Rightarrow> (error + unit) \<times> files" where
  "ssrl6_xanes_script F A fs =
     (if frame_rest A \<noteq> 0 \<and> abba_mode A
      then (Inl (ValueError ''Cannot use `frame_rest` and `abba_mode` together.''), fs)
      else
        (let scaninfo0 = write_scaninfo_header [] (abba_mode A) (repetitions A)
                           (ref_repetitions A);
             (v, s) = iteration_loop F A (iterations A)
                        (None, \<lparr>dest = dest_file fs, scaninfo = scaninfo0\<rparr>)
         in if iteration_rest A \<noteq> 0
            then (case v of
                    None \<Rightarrow>
                      (Inl NameError,
                       \<lparr>dest_file = dest s, scaninfo_file = Some (scaninfo s)\<rparr>)
                  | Some fs_name \<Rightarrow>
                      (let s = (if fs_name \<noteq> last (iterations A)
                                then dest_write [''wait '' @ str_int (iteration_rest A)] s
                                else s)
                       in (Inr (), \<lparr>dest_file = dest s, scaninfo_file = Some (scaninfo s)\<rparr>)))
            else (Inr (), \<lparr>dest_file = dest s, scaninfo_file = Some (scaninfo s)\<rparr>)))"

subsection \<open>Describing the output of the script\<close>

definition ref_files :: "'a float_format \<Rightarrow> 'a ssrl6_args \<Rightarrow> string \<Rightarrow> 'a \<Rightarrow> string list" where
  "ref_files F A fs_name E =
     map (\<lambda>rep. ref_template F fs_name E (int rep) (ref_repetitions A))
       [0..<nat (ref_repetitions A)]"

definition sam_files :: "'a float_format \<Rightarrow> 'a ssrl6_args \<Rightarrow> string \<Rightarrow> 'a \<Rightarrow> nat \<Rightarrow> string list" where
  "sam_files F A fs_name E fov =
     map (\<lambda>rep. sam_template F fs_name fov E (int rep) (repetitions A))
       [0..<nat (repetitions A)]"

definition collect_lines :: "string list \<Rightarrow> line list" where
  "collect_lines fns = map (\<lambda>f. ''collect '' @ f) fns"

definition ref_block_lines ::
  "'a float_format \<Rightarrow> 'a ssrl6_args \<Rightarrow> string \<Rightarrow> bool \<Rightarrow> 'a \<Rightarrow> line list" where
  "ref_block_lines F A fs_name ref_first E =
     ['';;;; Move to reference position''] @ pos_template F (reference_position A)
     @ (if frame_rest A \<noteq> 0 \<and> ref_first then [''wait '' @ str_int (frame_rest A)] else [])
     @ ['';;;; Collect reference frames''] @ exposure_str F A
     @ collect_lines (ref_files F A fs_name E)
     @ (if frame_rest A \<noteq> 0 \<and> \<not> ref_first then [''wait '' @ str_int (frame_rest A)] else [])"

definition sample_block_lines ::
  "'a float_format \<Rightarrow> 'a ssrl6_args \<Rightarrow> string \<Rightarrow> 'a \<Rightarrow> nat \<Rightarrow> 'a position \<Rightarrow> line list" where
  "sample_block_lines F A fs_name E fov p =
     ['';;;; Move to sample position '' @ str_nat fov] @ pos_template F p
     @ ['';;;; Collect frames sample position '' @ str_nat fov] @ exposure_str F A
     @ collect_lines (sam_files F A fs_name E fov)"

definition setup_lines :: "'a::{plus,minus,times} float_format \<Rightarrow> 'a ssrl6_args \<Rightarrow> 'a \<Rightarrow> line list" where
  "setup_lines F A E =
     ['';;;; set the MONO and the ZP'',
      ''sete '' @ fmt_2f F E,
      ''moveto zpx '' @ fmt_2f F (pos_x (Zoneplate_position (zoneplate A) E)),
      ''moveto zpy '' @ fmt_2f F (pos_y (Zoneplate_position (zoneplate A) E)),
      ''moveto zpz '' @ fmt_2f F (pos_z (Zoneplate_position (zoneplate A) E))]"

definition pos_index :: "bool \<Rightarrow> nat \<Rightarrow> nat \<Rightarrow> nat" where
  "pos_index ref_first n idx = (if ref_first then idx else n - idx - 1)"

definition sample_lines ::
  "'a float_format \<Rightarrow> 'a ssrl6_args \<Rightarrow> string \<Rightarrow> 'a \<Rightarrow> nat list \<Rightarrow> line list" where
  "sample_lines F A fs_name E order =
     concat (map (\<lambda>i. sample_block_lines F A fs_name E i (positions A ! i)) order)"

definition sample_files ::
  "'a float_format \<Rightarrow> 'a ssrl6_args \<Rightarrow> string \<Rightarrow> 'a \<Rightarrow> nat list \<Rightarrow> string list" where
  "sample_files F A fs_name E order = concat (map (\<lambda>i. sam_files F A fs_name E i) order)"

fun ref_first_trace :: "bool \<Rightarrow> bool \<Rightarrow> 'a list \<Rightarrow> bool list" where
  "ref_first_trace abba ref_first [] = []"
| "ref_first_trace abba ref_first (E # Es) =
     ref_first # ref_first_trace abba (\<not> (ref_first \<and> abba)) Es"

definition visit_order :: "'a ssrl6_args \<Rightarrow> bool \<Rightarrow> nat list" where
  "visit_order A ref_first =
     (if ref_first then [0..<length (positions A)] else rev [0..<length (positions A)])"

definition step_lines ::
  "'a::{plus,minus,times} float_format \<Rightarrow> 'a ssrl6_args \<Rightarrow> string \<Rightarrow> bool \<Rightarrow> 'a \<Rightarrow> line list" where
  "step_lines F A fs_name ref_first E =
     setup_lines F A E
     @ (if ref_first
        then ref_block_lines F A fs_name ref_first E
             @ sample_lines F A fs_name E (visit_order A ref_first)
        else sample_lines F A fs_name E (visit_order A ref_first)
             @ ref_block_lines F A fs_name ref_first E)"

definition step_files ::
  "'a float_format \<Rightarrow> 'a ssrl6_args \<Rightarrow> string \<Rightarrow> bool \<Rightarrow> 'a \<Rightarrow> string list" where
  "step_files F A fs_name ref_first E =
     ref_files F A fs_name E @ sample_files F A fs_name E (visit_order A ref_first)"

definition iteration_lines ::
  "'a::{plus,minus,times} float_format \<Rightarrow> 'a ssrl6_args \<Rightarrow> string \<Rightarrow> line list" where
  "iteration_lines F A fs_name =
     ['';; 2D XANES ;;'']
     @ concat (map (\<lambda>(r, E). step_lines F A fs_name r E)
                 (zip (ref_first_trace (abba_mode A) True (energies A)) (energies A)))
     @ ['';;;; Park at reference position''] @ pos_template F (reference_position A)"

definition iteration_files ::
  "'a float_format \<Rightarrow> 'a ssrl6_args \<Rightarrow> string \<Rightarrow> string list" where
  "iteration_files F A fs_name =
     concat (map (\<lambda>(r, E). step_files F A fs_name r E)
               (zip (ref_first_trace (abba_mode A) True (energies A)) (energies A)))"

subsection \<open>File names in the two files\<close>

text \<open>
  The file names of the \<^verbatim>\<open>collect\<close> lines of a script, and the file names listed in a
  scan-info file after its \<^verbatim>\<open>FILES\<close> line, both in file order.
\<close>

definition collect_filenames :: "line list \<Rightarrow> string list" where
  "collect_filenames ls = map (drop 8) (filter (\<lambda>l. take 8 l = ''collect '') ls)"

definition scaninfo_filenames :: "line list \<Rightarrow> string list" where
  "scaninfo_filenames ls = drop 1 (dropWhile (\<lambda>l. l \<noteq> ''FILES'') ls)"

subsection \<open>Numbers with an exact value\<close>

text \<open>
  For concrete runs the numbers are rationals: an integer or a float is the rational it
  denotes. Python renders a float in fixed notation by rounding its exact value to the
  wanted number of decimals, a tie going to the even digit; a sign comes before the zero
  padding.
\<close>

definition round_half_even :: "rat \<Rightarrow> int" where
  "round_half_even q =
     (let f = \<lfloor>q\<rfloor>; d = q - of_int f
      in if d < 1 / 2 then f else if 1 / 2 < d then f + 1 else if even f then f else f + 1)"

definition fixed_digits :: "nat \<Rightarrow> rat \<Rightarrow> string" where
  "fixed_digits p q =
     (let n = nat (round_half_even (\<bar>q\<bar> * 10 ^ p))
      in str_nat (n div 10 ^ p) @ ''.'' @ zfill p (str_nat (n mod 10 ^ p)))"

definition fmt_fixed :: "nat \<Rightarrow> nat \<Rightarrow> rat \<Rightarrow> string" where
  "fmt_fixed w p q =
     (if q < 0 then CHR ''-'' # zfill (w - 1) (fixed_digits p q) else zfill w (fixed_digits p q))"

definition rat_format :: "rat float_format" where
  "rat_format = \<lparr>fmt_2f = fmt_fixed 0 2, fmt_07_1f = fmt_fixed 7 1\<rparr>"

text \<open>
  The end-to-end scenario of the specification: two energies, two sample positions, a
  reference position, two repetitions, one reference repetition, ABBA mode, one iteration.
  The zone plate is the one \<^verbatim>\<open>Zoneplate(start, z_step=0.5)\<close> builds.
\<close>

definition scenario :: "rat ssrl6_args" where
  "scenario =
     \<lparr>energies = [8950, 8980],
      zoneplate = \<lparr>start = \<lparr>zp_x = 0, zp_y = 0, zp_z = 3000, zp_energy = 8950\<rparr>,
                   step = \<lparr>pos_x = 0, pos_y = 0, pos_z = 1 / 2\<rparr>\<rparr>,
      positions = [\<lparr>pos_x = 0, pos_y = 0, pos_z = 0\<rparr>, \<lparr>pos_x = 1, pos_y = 1, pos_z = 0\<rparr>],
      reference_position = \<lparr>pos_x = 5, pos_y = 5, pos_z = 0\<rparr>,
      iterations = [''sample1''],
      iteration_rest = 0,
      frame_rest = 0,
      binning = 2,
      exposure = 1 / 2,
      repetitions = 2,
      ref_repetitions = 1,
      abba_mode = True\<rparr>"

definition no_files :: files where
  "no_files = \<lparr>dest_file = [], scaninfo_file = None\<rparr>"

subsection \<open>Binary floating point\<close>

text \<open>
  A Python \<^verbatim>\<open>float\<close> is an IEEE 754 binary64 number: a finite value, an infinity or a
  NaN. A finite float is the rational it denotes; the sign of a zero is not kept (no
  comparison and no result below depends on it).
\<close>

datatype f64 = Finite rat | PosInf | NegInf | NaN

text \<open>The number of binary digits of a natural number.\<close>

fun bit_length :: "nat \<Rightarrow> nat" where
  "bit_length n = (if n = 0 then 0 else Suc (bit_length (n div 2)))"

declare bit_length.simps [simp del]

definition pow2 :: "int \<Rightarrow> rat" where
  "pow2 k = (if 0 \<le> k then 2 ^ nat k else 1 / 2 ^ nat (- k))"

text \<open>The exponent \<open>e\<close> of a rational \<open>q \<noteq> 0\<close>: \<open>2\<^sup>e \<le> \<bar>q\<bar> < 2\<^sup>e\<^sup>+\<^sup>1\<close>.\<close>

definition binade :: "rat \<Rightarrow> int" where
  "binade q =
     (if 1 \<le> \<bar>q\<bar> then int (bit_length (nat \<lfloor>\<bar>q\<bar>\<rfloor>)) - 1
      else - int (bit_length (nat (\<lceil>1 / \<bar>q\<bar>\<rceil> - 1))))"

text \<open>
  Rounding a rational to the nearest float, a tie going to the even significand: 53
  significant binary digits, the smallest exponent -1022 (below it the spacing stays
  that of the subnormal numbers), and an infinity when the rounded value reaches
  \<open>2\<^sup>1\<^sup>0\<^sup>2\<^sup>4\<close>.
\<close>

definition f64_round :: "rat \<Rightarrow> f64" where
  "f64_round q =
     (if q = 0 then Finite 0
      else
        (let ulp = pow2 (max (binade q) (- 1022) - 52);
             r = of_int (round_half_even (q / ulp)) * ulp
         in if 2 ^ 1024 \<le> \<bar>r\<bar> then (if 0 < q then PosInf else NegInf) else Finite r))"

text \<open>
  The arithmetic of floats: the exact result, rounded. An operation on an infinity or a
  NaN follows IEEE 754. The quotient by zero is given for completeness; Python raises
  before it is computed.
\<close>

fun f64_negative :: "f64 \<Rightarrow> bool" where
  "f64_negative (Finite a) = (a < 0)"
| "f64_negative NegInf = True"
| "f64_negative PosInf = False"
| "f64_negative NaN = False"

fun f64_neg :: "f64 \<Rightarrow> f64" where
  "f64_neg (Finite a) = Finite (- a)"
| "f64_neg PosInf = NegInf"
| "f64_neg NegInf = PosInf"
| "f64_neg NaN = NaN"

definition f64_add :: "f64 \<Rightarrow> f64 \<Rightarrow> f64" where
  "f64_add x y =
     (case (x, y) of
        (Finite a, Finite b) \<Rightarrow> f64_round (a + b)
      | (NaN, _) \<Rightarrow> NaN
      | (_, NaN) \<Rightarrow> NaN
      | (Finite a, _) \<Rightarrow> y
      | (_, Finite b) \<Rightarrow> x
      | _ \<Rightarrow> (if x = y then x else NaN))"

definition f64_mul :: "f64 \<Rightarrow> f64 \<Rightarrow> f64" where
  "f64_mul x y =
     (case (x, y) of
        (Finite a, Finite b) \<Rightarrow> f64_round (a * b)
      | (NaN, _) \<Rightarrow> NaN
      | (_, NaN) \<Rightarrow> NaN
      | _ \<Rightarrow> (if x = Finite 0 \<or> y = Finite 0 then NaN
              else if f64_negative x = f64_negative y then PosInf else NegInf))"

definition f64_div :: "f64 \<Rightarrow> f64 \<Rightarrow> f64" where
  "f64_div x y =
     (case (x, y) of
        (NaN, _) \<Rightarrow> NaN
      | (_, NaN) \<Rightarrow> NaN
      | (Finite a, Finite b) \<Rightarrow>
          (if b = 0 then (if a = 0 then NaN else if 0 < a then PosInf else NegInf)
           else f64_round (a / b))
      | (Finite a, _) \<Rightarrow> Finite 0
      | (_, Finite b) \<Rightarrow> (if f64_negative x = (b < 0) then PosInf else NegInf)
      | _ \<Rightarrow> NaN)"

instantiation f64 :: "{zero, plus, minus, uminus, times, inverse}"
begin

definition zero_f64_def: "0 = Finite 0"

definition plus_f64_def: "x + y = f64_add x y"

definition uminus_f64_def: "- x = f64_neg x"

definition minus_f64_def: "x - y = f64_add x (f64_neg y)"

definition times_f64_def: "x * y = f64_mul x y"

definition divide_f64_def: "x div y = f64_div x y"

definition inverse_f64_def: "inverse x = f64_div (Finite 1) x"

instance ..

end


subsection \<open>The script for APS beamline 8-BM-B\<close>























section \<open>Properties\<close>

subsection \<open>What the loops of the script write\<close>

lemma ref_frames_eq:
  "ref_frames F A nm E reps (r, s) =
     (r @ collect_lines (map (\<lambda>rep. ref_template F nm E (int rep) (ref_repetitions A)) reps),
      s\<lparr>scaninfo := scaninfo s
           @ map (\<lambda>rep. ref_template F nm E (int rep) (ref_repetitions A)) reps\<rparr>)"
  by (induction reps arbitrary: r s) (simp_all add: collect_lines_def scaninfo_write_def Let_def)

lemma reference_block_eq:
  "reference_block F A nm rf E s =
     (ref_block_lines F A nm rf E, s\<lparr>scaninfo := scaninfo s @ ref_files F A nm E\<rparr>)"
  by (simp add: reference_block_def ref_frames_eq ref_block_lines_def ref_files_def Let_def)

lemma sample_frames_eq:
  "sample_frames F A nm E i reps s =
     s\<lparr>dest := dest s
           @ collect_lines (map (\<lambda>rep. sam_template F nm i E (int rep) (repetitions A)) reps),
       scaninfo := scaninfo s
           @ map (\<lambda>rep. sam_template F nm i E (int rep) (repetitions A)) reps\<rparr>"
  by (induction reps arbitrary: s)
     (simp_all add: collect_lines_def scaninfo_write_def dest_write_def Let_def)

lemma sample_positions_loop_eq:
  "sample_positions_loop F A nm rf E n ps s =
     s\<lparr>dest := dest s
           @ concat (map (\<lambda>(idx, p). sample_block_lines F A nm E (pos_index rf n idx) p) ps),
       scaninfo := scaninfo s
           @ concat (map (\<lambda>(idx, p). sam_files F A nm E (pos_index rf n idx)) ps)\<rparr>"
proof (induction ps arbitrary: s)
  case Nil
  show ?case by simp
next
  case (Cons ip ps)
  obtain idx p where ip: "ip = (idx, p)" by (cases ip)
  show ?case
    unfolding ip
    by (simp add: Cons.IH sample_frames_eq dest_write_def sample_block_lines_def sam_files_def
        pos_index_def Let_def)
qed

lemma enumerate_forward:
  "map (\<lambda>(idx, p). g (pos_index True n idx) p) (enumerate 0 xs)
     = map (\<lambda>i. g i (xs ! i)) [0..<length xs]"
  by (rule nth_equalityI) (simp_all add: nth_enumerate_eq pos_index_def)

lemma enumerate_backward:
  "map (\<lambda>(idx, p). g (pos_index False (length xs) idx) p) (enumerate 0 (rev xs))
     = map (\<lambda>i. g i (xs ! i)) (rev [0..<length xs])"
  by (rule nth_equalityI) (simp_all add: nth_enumerate_eq rev_nth pos_index_def)

lemma energy_step_eq:
  "energy_step F A nm rf E s =
     (let order = (if rf then [0..<length (positions A)] else rev [0..<length (positions A)])
      in s\<lparr>dest := dest s @ setup_lines F A E
                 @ (if rf then ref_block_lines F A nm rf E @ sample_lines F A nm E order
                    else sample_lines F A nm E order @ ref_block_lines F A nm rf E),
            scaninfo := scaninfo s @ ref_files F A nm E @ sample_files F A nm E order\<rparr>)"
proof (cases rf)
  case True
  have l: "concat (map (\<lambda>(idx, p). sample_block_lines F A nm E
              (pos_index True (length (positions A)) idx) p) (enumerate 0 (positions A)))
           = sample_lines F A nm E [0..<length (positions A)]"
    unfolding sample_lines_def
    using enumerate_forward [of "\<lambda>i p. sample_block_lines F A nm E i p" "length (positions A)" "positions A"] by simp
  have f: "concat (map (\<lambda>(idx, p). sam_files F A nm E
              (pos_index True (length (positions A)) idx)) (enumerate 0 (positions A)))
           = sample_files F A nm E [0..<length (positions A)]"
    unfolding sample_files_def
    using enumerate_forward [of "\<lambda>i p. sam_files F A nm E i" "length (positions A)" "positions A"] by simp
  show ?thesis
    unfolding energy_step_def
    by (simp add: True reference_block_eq sample_positions_loop_eq dest_write_def setup_lines_def
        Let_def l f)
next
  case False
  have l: "concat (map (\<lambda>(idx, p). sample_block_lines F A nm E
              (pos_index False (length (positions A)) idx) p) (enumerate 0 (rev (positions A))))
           = sample_lines F A nm E (rev [0..<length (positions A)])"
    unfolding sample_lines_def
    using enumerate_backward [of "\<lambda>i p. sample_block_lines F A nm E i p" "positions A"] by simp
  have f: "concat (map (\<lambda>(idx, p). sam_files F A nm E
              (pos_index False (length (positions A)) idx)) (enumerate 0 (rev (positions A))))
           = sample_files F A nm E (rev [0..<length (positions A)])"
    unfolding sample_files_def
    using enumerate_backward [of "\<lambda>i p. sam_files F A nm E i" "positions A"] by simp
  show ?thesis
    unfolding energy_step_def
    by (simp add: False reference_block_eq sample_positions_loop_eq dest_write_def setup_lines_def
        Let_def l f)
qed

lemma energy_step_sinks:
  "energy_step F A nm rf E s =
     s\<lparr>dest := dest s @ step_lines F A nm rf E,
       scaninfo := scaninfo s @ step_files F A nm rf E\<rparr>"
  by (simp add: energy_step_eq step_lines_def step_files_def visit_order_def Let_def)

lemma energy_loop_sinks:
  "energy_loop F A nm rf Es s =
     s\<lparr>dest := dest s
           @ concat (map (\<lambda>(r, E). step_lines F A nm r E)
                       (zip (ref_first_trace (abba_mode A) rf Es) Es)),
       scaninfo := scaninfo s
           @ concat (map (\<lambda>(r, E). step_files F A nm r E)
                       (zip (ref_first_trace (abba_mode A) rf Es) Es))\<rparr>"
  by (induction Es arbitrary: rf s) (simp_all add: energy_step_sinks)

lemma iteration_loop_sinks:
  "iteration_loop F A its (v, s) =
     (if its = [] then v else Some (last its),
      s\<lparr>dest := dest s @ concat (map (iteration_lines F A) its),
        scaninfo := scaninfo s @ concat (map (iteration_files F A) its)\<rparr>)"
  by (induction its arbitrary: v s)
     (simp_all add: energy_loop_sinks dest_write_def iteration_lines_def iteration_files_def
        Let_def)

lemma ssrl6_xanes_script_eq:
  "ssrl6_xanes_script F A fs =
     (if frame_rest A \<noteq> 0 \<and> abba_mode A
      then (Inl (ValueError ''Cannot use `frame_rest` and `abba_mode` together.''), fs)
      else (if iteration_rest A \<noteq> 0 \<and> iterations A = [] then Inl NameError else Inr (),
            \<lparr>dest_file = dest_file fs @ concat (map (iteration_lines F A) (iterations A)),
             scaninfo_file = Some (write_scaninfo_header [] (abba_mode A) (repetitions A)
                                     (ref_repetitions A)
                                   @ concat (map (iteration_files F A) (iterations A)))\<rparr>))"
  by (simp add: ssrl6_xanes_script_def iteration_loop_sinks Let_def)

subsection \<open>The sanity check of the arguments\<close>

text \<open>
  Claim C8. When \<open>frame_rest\<close> and \<open>abba_mode\<close> are both true, \<^verbatim>\<open>ssrl6_xanes_script\<close>
  raises the \<^verbatim>\<open>ValueError\<close> of its sanity check (the configuration error of the
  specification) and leaves both files as they were: nothing is written to the script,
  and the scan-info file is not even opened. The check is the first statement of the
  function, so it is made once, before the loop over the iterations.
\<close>

theorem ssrl6_frame_rest_abba_rejected:
  "frame_rest A \<noteq> 0 \<Longrightarrow> abba_mode A \<Longrightarrow>
     ssrl6_xanes_script F A fs =
       (Inl (ValueError ''Cannot use `frame_rest` and `abba_mode` together.''), fs)"
  by (simp add: ssrl6_xanes_script_def)

theorem ssrl6_frame_rest_abba_rejected_witness:
  "frame_rest (scenario\<lparr>frame_rest := 5\<rparr>) \<noteq> 0 \<and> abba_mode (scenario\<lparr>frame_rest := 5\<rparr>)
   \<and> ssrl6_xanes_script rat_format (scenario\<lparr>frame_rest := 5\<rparr>) no_files =
       (Inl (ValueError ''Cannot use `frame_rest` and `abba_mode` together.''), no_files)"
  using ssrl6_frame_rest_abba_rejected [of "scenario\<lparr>frame_rest := 5\<rparr>" rat_format no_files]
  by (simp add: scenario_def)

subsection \<open>The scan-info header\<close>

lemma str_int_0: "str_int 0 = ''0''"
  by (simp add: str_int_def str_nat.simps digit_def)

lemma str_int_1: "str_int 1 = ''1''"
  by (simp add: str_int_def str_nat.simps digit_def)

text \<open>
  Claim C3, as amended. \<^verbatim>\<open>write_scaninfo_header\<close> appends nineteen header lines, not
  eighteen, with the keys VERSION, ENERGY, TOMO, MOSAIC, MULTIEXPOSURE, NREPEATSCAN,
  WAITNSECS, NEXPOSURES, AVERAGEONTHEFLY, REFNEXPOSURES, REF4EVERYEXPOSURES, REFABBA,
  REFAVERAGEONTHEFLY, MOSAICUP, MOSAICDOWN, MOSAICLEFT, MOSAICRIGHT, MOSAICOVERLAP and
  MOSAICCENTRALTILE, and then the line \<^verbatim>\<open>FILES\<close>. The REFABBA line is \<^verbatim>\<open>REFABBA 1\<close> when
  \<open>abba_mode\<close> is true and \<^verbatim>\<open>REFABBA 0\<close> otherwise.
\<close>

theorem scaninfo_header_has_19_lines:
  "write_scaninfo_header f abba reps ref_reps =
     f @ [''VERSION 1'',
          ''ENERGY 1'',
          ''TOMO 0'',
          ''MOSAIC 0'',
          ''MULTIEXPOSURE 4'',
          ''NREPEATSCAN   1'',
          ''WAITNSECS   0'',
          ''NEXPOSURES   '' @ str_int reps,
          ''AVERAGEONTHEFLY   0'',
          ''REFNEXPOSURES  '' @ str_int ref_reps,
          ''REF4EVERYEXPOSURES   '' @ str_int reps,
          (if abba then ''REFABBA 1'' else ''REFABBA 0''),
          ''REFAVERAGEONTHEFLY 0'',
          ''MOSAICUP   1'',
          ''MOSAICDOWN   1'',
          ''MOSAICLEFT   1'',
          ''MOSAICRIGHT   1'',
          ''MOSAICOVERLAP 0.20'',
          ''MOSAICCENTRALTILE   1'',
          ''FILES'']
   \<and> length (write_scaninfo_header f abba reps ref_reps) = length f + 19 + 1
   \<and> map header_key (take 19 (drop (length f)
          (write_scaninfo_header f abba reps ref_reps))) =
       [''VERSION'', ''ENERGY'', ''TOMO'', ''MOSAIC'', ''MULTIEXPOSURE'', ''NREPEATSCAN'',
        ''WAITNSECS'', ''NEXPOSURES'', ''AVERAGEONTHEFLY'', ''REFNEXPOSURES'',
        ''REF4EVERYEXPOSURES'', ''REFABBA'', ''REFAVERAGEONTHEFLY'', ''MOSAICUP'',
        ''MOSAICDOWN'', ''MOSAICLEFT'', ''MOSAICRIGHT'', ''MOSAICOVERLAP'',
        ''MOSAICCENTRALTILE'']"
  by (simp add: write_scaninfo_header_def fwrite_def str_int_0 str_int_1 header_key_def)

text \<open>
  Claim C3 as stated fails: the nineteen keys it lists make nineteen lines before the
  \<^verbatim>\<open>FILES\<close> line, so a header of exactly eighteen lines is never written.
\<close>

theorem scaninfo_header_18_lines_counterexample:
  "length (takeWhile (\<lambda>l. l \<noteq> ''FILES'') (write_scaninfo_header [] True 5 10)) \<noteq> 18"
  by (simp add: write_scaninfo_header_def fwrite_def)

subsection \<open>The alternation of reference and sample blocks\<close>

lemma ref_first_trace_nth:
  "ref_first_trace abba rf Es =
     map (\<lambda>k. if abba then rf = even k else (k = 0 \<longrightarrow> rf)) [0..<length Es]"
proof (induction Es arbitrary: rf)
  case Nil
  show ?case by simp
next
  case (Cons E Es)
  have "map (\<lambda>k. if abba then rf = even k else (k = 0 \<longrightarrow> rf)) [0..<length (E # Es)]
        = rf # map (\<lambda>k. if abba then rf = even (Suc k) else True) [0..<length Es]"
    by (simp add: upt_conv_Cons map_Suc_upt [symmetric] del: upt_Suc)
  also have "map (\<lambda>k. if abba then rf = even (Suc k) else True) [0..<length Es]
        = ref_first_trace abba (\<not> (rf \<and> abba)) Es"
    by (auto simp: Cons.IH)
  finally show ?case by simp
qed

lemma ref_first_trace_True:
  "ref_first_trace abba True Es = map (\<lambda>k. \<not> (abba \<and> odd k)) [0..<length Es]"
  by (simp add: ref_first_trace_nth)

lemma concat_zip_trace:
  "concat (map (\<lambda>(r, E). h r E) (zip (map f [0..<length Es]) Es))
     = concat (map (\<lambda>k. h (f k) (Es ! k)) [0..<length Es])"
proof -
  have "map (\<lambda>(r, E). h r E) (zip (map f [0..<length Es]) Es)
          = map (\<lambda>k. h (f k) (Es ! k)) [0..<length Es]"
    by (rule nth_equalityI) simp_all
  then show ?thesis by simp
qed

lemma iteration_lines_by_parity:
  "iteration_lines F A nm =
     ['';; 2D XANES ;;'']
     @ concat (map (\<lambda>k. step_lines F A nm (\<not> (abba_mode A \<and> odd k)) (energies A ! k))
                 [0..<length (energies A)])
     @ ['';;;; Park at reference position''] @ pos_template F (reference_position A)"
  unfolding iteration_lines_def ref_first_trace_True
  using concat_zip_trace [of "\<lambda>r E. step_lines F A nm r E" "\<lambda>k. \<not> (abba_mode A \<and> odd k)" "energies A"]
  by simp

lemma ssrl6_returns_iff:
  "fst (ssrl6_xanes_script F A fs) = Inr () \<longleftrightarrow>
     \<not> (frame_rest A \<noteq> 0 \<and> abba_mode A) \<and> \<not> (iteration_rest A \<noteq> 0 \<and> iterations A = [])"
  by (simp add: ssrl6_xanes_script_eq)

text \<open>
  Claim C4. In the script of a call that returns, every iteration starts afresh: its
  energy steps are numbered from zero. With \<open>abba_mode\<close> the step of even number writes the
  reference block before the sample blocks and the step of odd number writes it after
  them (the samples then in reverse order); without \<open>abba_mode\<close> every step writes the
  reference block first.
\<close>

theorem reference_block_alternates:
  assumes "fst (ssrl6_xanes_script F A fs) = Inr ()"
  shows "dest_file (snd (ssrl6_xanes_script F A fs)) =
     dest_file fs
     @ concat (map (\<lambda>nm.
         ['';; 2D XANES ;;'']
         @ concat (map (\<lambda>k.
               setup_lines F A (energies A ! k)
               @ (if abba_mode A \<and> odd k
                  then sample_lines F A nm (energies A ! k) (rev [0..<length (positions A)])
                       @ ref_block_lines F A nm False (energies A ! k)
                  else ref_block_lines F A nm True (energies A ! k)
                       @ sample_lines F A nm (energies A ! k) [0..<length (positions A)]))
             [0..<length (energies A)])
         @ ['';;;; Park at reference position''] @ pos_template F (reference_position A))
       (iterations A))"
proof -
  have ok: "\<not> (frame_rest A \<noteq> 0 \<and> abba_mode A)"
    using assms by (simp add: ssrl6_returns_iff)
  have step: "step_lines F A nm (\<not> (abba_mode A \<and> odd k)) E =
      setup_lines F A E
      @ (if abba_mode A \<and> odd k
         then sample_lines F A nm E (rev [0..<length (positions A)])
              @ ref_block_lines F A nm False E
         else ref_block_lines F A nm True E
              @ sample_lines F A nm E [0..<length (positions A)])" for nm k E
    by (simp add: step_lines_def visit_order_def)
  have il: "iteration_lines F A = (\<lambda>nm.
         ['';; 2D XANES ;;'']
         @ concat (map (\<lambda>k.
               setup_lines F A (energies A ! k)
               @ (if abba_mode A \<and> odd k
                  then sample_lines F A nm (energies A ! k) (rev [0..<length (positions A)])
                       @ ref_block_lines F A nm False (energies A ! k)
                  else ref_block_lines F A nm True (energies A ! k)
                       @ sample_lines F A nm (energies A ! k) [0..<length (positions A)]))
             [0..<length (energies A)])
         @ ['';;;; Park at reference position''] @ pos_template F (reference_position A))"
    by (rule ext) (simp only: iteration_lines_by_parity step)
  have "dest_file (snd (ssrl6_xanes_script F A fs)) =
          dest_file fs @ concat (map (iteration_lines F A) (iterations A))"
    using ok by (auto simp: ssrl6_xanes_script_eq)
  then show ?thesis
    unfolding il .
qed

theorem reference_block_alternates_witness:
  "fst (ssrl6_xanes_script rat_format scenario no_files) = Inr ()
   \<and> dest_file (snd (ssrl6_xanes_script rat_format scenario no_files)) =
     ['';; 2D XANES ;;'']
     @ (setup_lines rat_format scenario 8950
        @ ref_block_lines rat_format scenario ''sample1'' True 8950
        @ sample_lines rat_format scenario ''sample1'' 8950 [0, 1])
     @ (setup_lines rat_format scenario 8980
        @ sample_lines rat_format scenario ''sample1'' 8980 [1, 0]
        @ ref_block_lines rat_format scenario ''sample1'' False 8980)
     @ ['';;;; Park at reference position''] @ pos_template rat_format \<lparr>pos_x = 5, pos_y = 5, pos_z = 0\<rparr>"
  using reference_block_alternates [where F = rat_format and A = scenario and fs = no_files]
  by (simp add: ssrl6_returns_iff scenario_def no_files_def upt_conv_Cons)

subsection \<open>A concrete run\<close>

text \<open>
  The scenario of the specification, run on empty files. Every rendering is computed by
  the simplifier from the definitions.
\<close>

lemma fmt_2f_values:
  "fmt_2f rat_format 8950 = ''8950.00''"
  "fmt_2f rat_format 8980 = ''8980.00''"
  "fmt_2f rat_format 0 = ''0.00''"
  "fmt_2f rat_format 1 = ''1.00''"
  "fmt_2f rat_format 5 = ''5.00''"
  "fmt_2f rat_format 3000 = ''3000.00''"
  "fmt_2f rat_format 3015 = ''3015.00''"
  "fmt_2f rat_format (1 / 2) = ''0.50''"
  by (simp_all add: rat_format_def fmt_fixed_def fixed_digits_def round_half_even_def zfill_def
      str_nat.simps digit_def Let_def)

lemma fmt_07_1f_values:
  "fmt_07_1f rat_format 8950 = ''08950.0''"
  "fmt_07_1f rat_format 8980 = ''08980.0''"
  by (simp_all add: rat_format_def fmt_fixed_def fixed_digits_def round_half_even_def zfill_def
      str_nat.simps digit_def Let_def)

lemma small_numbers:
  "str_nat 0 = ''0''" "str_nat 1 = ''1''" "str_nat (Suc 0) = ''1''" "str_int 2 = ''2''"
  "fmt_03d 0 = ''000''" "fmt_03d 1 = ''001''" "fmt_03d 2 = ''002''"
  by (simp_all add: str_int_def fmt_03d_def zfill_def str_nat.simps digit_def eval_nat_numeral)

lemma scenario_run:
  "ssrl6_xanes_script rat_format scenario no_files =
(Inr (),
  \<lparr>dest_file =
     ['';; 2D XANES ;;'', '';;;; set the MONO and the ZP'',
      ''sete 8950.00'', ''moveto zpx 0.00'', ''moveto zpy 0.00'',
      ''moveto zpz 3000.00'', '';;;; Move to reference position'',
      ''moveto x 5.00'', ''moveto y 5.00'', ''moveto z 0.00'',
      '';;;; Collect reference frames'', ''setexp 0.50'', ''setbinning 2'',
      ''collect ref_sample1_08950.0_eV_000of001.xrm'',
      '';;;; Move to sample position 0'', ''moveto x 0.00'',
      ''moveto y 0.00'', ''moveto z 0.00'',
      '';;;; Collect frames sample position 0'', ''setexp 0.50'',
      ''setbinning 2'', ''collect sample1_fov0_08950.0_eV_000of002.xrm'',
      ''collect sample1_fov0_08950.0_eV_001of002.xrm'',
      '';;;; Move to sample position 1'', ''moveto x 1.00'',
      ''moveto y 1.00'', ''moveto z 0.00'',
      '';;;; Collect frames sample position 1'', ''setexp 0.50'',
      ''setbinning 2'', ''collect sample1_fov1_08950.0_eV_000of002.xrm'',
      ''collect sample1_fov1_08950.0_eV_001of002.xrm'',
      '';;;; set the MONO and the ZP'', ''sete 8980.00'',
      ''moveto zpx 0.00'', ''moveto zpy 0.00'', ''moveto zpz 3015.00'',
      '';;;; Move to sample position 1'', ''moveto x 1.00'',
      ''moveto y 1.00'', ''moveto z 0.00'',
      '';;;; Collect frames sample position 1'', ''setexp 0.50'',
      ''setbinning 2'', ''collect sample1_fov1_08980.0_eV_000of002.xrm'',
      ''collect sample1_fov1_08980.0_eV_001of002.xrm'',
      '';;;; Move to sample position 0'', ''moveto x 0.00'',
      ''moveto y 0.00'', ''moveto z 0.00'',
      '';;;; Collect frames sample position 0'', ''setexp 0.50'',
      ''setbinning 2'', ''collect sample1_fov0_08980.0_eV_000of002.xrm'',
      ''collect sample1_fov0_08980.0_eV_001of002.xrm'',
      '';;;; Move to reference position'', ''moveto x 5.00'',
      ''moveto y 5.00'', ''moveto z 0.00'',
      '';;;; Collect reference frames'', ''setexp 0.50'', ''setbinning 2'',
      ''collect ref_sample1_08980.0_eV_000of001.xrm'',
      '';;;; Park at reference position'', ''moveto x 5.00'',
      ''moveto y 5.00'', ''moveto z 0.00''],
     scaninfo_file =
       Some
        [''VERSION 1'', ''ENERGY 1'', ''TOMO 0'', ''MOSAIC 0'',
         ''MULTIEXPOSURE 4'', ''NREPEATSCAN   1'', ''WAITNSECS   0'',
         ''NEXPOSURES   2'', ''AVERAGEONTHEFLY   0'', ''REFNEXPOSURES  1'',
         ''REF4EVERYEXPOSURES   2'', ''REFABBA 1'',
         ''REFAVERAGEONTHEFLY 0'', ''MOSAICUP   1'', ''MOSAICDOWN   1'',
         ''MOSAICLEFT   1'', ''MOSAICRIGHT   1'', ''MOSAICOVERLAP 0.20'',
         ''MOSAICCENTRALTILE   1'', ''FILES'',
         ''ref_sample1_08950.0_eV_000of001.xrm'',
         ''sample1_fov0_08950.0_eV_000of002.xrm'',
         ''sample1_fov0_08950.0_eV_001of002.xrm'',
         ''sample1_fov1_08950.0_eV_000of002.xrm'',
         ''sample1_fov1_08950.0_eV_001of002.xrm'',
         ''ref_sample1_08980.0_eV_000of001.xrm'',
         ''sample1_fov1_08980.0_eV_000of002.xrm'',
         ''sample1_fov1_08980.0_eV_001of002.xrm'',
         ''sample1_fov0_08980.0_eV_000of002.xrm'',
         ''sample1_fov0_08980.0_eV_001of002.xrm'']\<rparr>)"
  by (simp add: ssrl6_xanes_script_eq scenario_def no_files_def iteration_lines_def
      iteration_files_def step_lines_def step_files_def visit_order_def setup_lines_def
      ref_block_lines_def sample_lines_def sample_files_def sample_block_lines_def
      ref_files_def sam_files_def collect_lines_def pos_template_def exposure_str_def
      ref_template_def sam_template_def Zoneplate_position_def
      write_scaninfo_header_def fwrite_def str_int_0 str_int_1
      fmt_2f_values fmt_07_1f_values small_numbers upt_conv_Cons)

subsection \<open>The order of the sample positions\<close>

text \<open>
  Claim C5. An energy step with \<open>ref_first\<close> false visits the sample positions from the
  last to the first. The block written for the position \<open>positions A ! i\<close> moves to the
  coordinates of that position and carries the index \<open>i\<close> of that position in the original
  list: in the two comment lines \<^verbatim>\<open>Move to sample position i\<close> and
  \<^verbatim>\<open>Collect frames sample position i\<close>, and as the number after \<^verbatim>\<open>_fov\<close> in every file
  name of the block, in the \<^verbatim>\<open>collect\<close> lines of the script and in the scan-info file
  alike. The reversal changes the order of the visits and nothing else. The theorem gives
  every line of the step.
\<close>

theorem reverse_traversal_keeps_fov_index:
  "energy_step F A nm False E s =
     s\<lparr>dest := dest s
           @ ['';;;; set the MONO and the ZP'',
              ''sete '' @ fmt_2f F E,
              ''moveto zpx '' @ fmt_2f F (pos_x (Zoneplate_position (zoneplate A) E)),
              ''moveto zpy '' @ fmt_2f F (pos_y (Zoneplate_position (zoneplate A) E)),
              ''moveto zpz '' @ fmt_2f F (pos_z (Zoneplate_position (zoneplate A) E))]
           @ concat (map (\<lambda>i.
                 ['';;;; Move to sample position '' @ str_nat i,
                  ''moveto x '' @ fmt_2f F (pos_x (positions A ! i)),
                  ''moveto y '' @ fmt_2f F (pos_y (positions A ! i)),
                  ''moveto z '' @ fmt_2f F (pos_z (positions A ! i)),
                  '';;;; Collect frames sample position '' @ str_nat i,
                  ''setexp '' @ fmt_2f F (exposure A),
                  ''setbinning '' @ str_int (binning A)]
                 @ map (\<lambda>rep. ''collect '' @ nm @ ''_fov'' @ str_nat i @ ''_'' @ fmt_07_1f F E
                               @ ''_eV_'' @ fmt_03d (int rep) @ ''of'' @ fmt_03d (repetitions A)
                               @ ''.xrm'')
                     [0..<nat (repetitions A)])
               (rev [0..<length (positions A)]))
           @ ['';;;; Move to reference position'',
              ''moveto x '' @ fmt_2f F (pos_x (reference_position A)),
              ''moveto y '' @ fmt_2f F (pos_y (reference_position A)),
              ''moveto z '' @ fmt_2f F (pos_z (reference_position A)),
              '';;;; Collect reference frames'',
              ''setexp '' @ fmt_2f F (exposure A),
              ''setbinning '' @ str_int (binning A)]
           @ map (\<lambda>rep. ''collect ref_'' @ nm @ ''_'' @ fmt_07_1f F E @ ''_eV_''
                         @ fmt_03d (int rep) @ ''of'' @ fmt_03d (ref_repetitions A) @ ''.xrm'')
               [0..<nat (ref_repetitions A)]
           @ (if frame_rest A \<noteq> 0 then [''wait '' @ str_int (frame_rest A)] else []),
       scaninfo := scaninfo s
           @ map (\<lambda>rep. ''ref_'' @ nm @ ''_'' @ fmt_07_1f F E @ ''_eV_''
                         @ fmt_03d (int rep) @ ''of'' @ fmt_03d (ref_repetitions A) @ ''.xrm'')
               [0..<nat (ref_repetitions A)]
           @ concat (map (\<lambda>i.
                 map (\<lambda>rep. nm @ ''_fov'' @ str_nat i @ ''_'' @ fmt_07_1f F E
                               @ ''_eV_'' @ fmt_03d (int rep) @ ''of'' @ fmt_03d (repetitions A)
                               @ ''.xrm'')
                     [0..<nat (repetitions A)])
               (rev [0..<length (positions A)]))\<rparr>"
  by (simp add: energy_step_eq sample_lines_def sample_files_def Let_def setup_lines_def
      sample_block_lines_def sam_files_def ref_block_lines_def ref_files_def collect_lines_def
      pos_template_def exposure_str_def sam_template_def ref_template_def comp_def)

text \<open>
  The second energy step of the scenario, run with \<open>ref_first\<close> false: the position
  \<open>(1, 1, 0)\<close>, second in the list, is visited first and its files are named
  \<^verbatim>\<open>fov1\<close>; the position \<open>(0, 0, 0)\<close> is visited second and its files are named
  \<^verbatim>\<open>fov0\<close>.
\<close>

theorem reverse_traversal_keeps_fov_index_witness:
  "energy_step rat_format scenario ''sample1'' False 8980 \<lparr>dest = [], scaninfo = []\<rparr> =
     \<lparr>dest =
        ['';;;; set the MONO and the ZP'', ''sete 8980.00'',
         ''moveto zpx 0.00'', ''moveto zpy 0.00'', ''moveto zpz 3015.00'',
         '';;;; Move to sample position 1'', ''moveto x 1.00'',
         ''moveto y 1.00'', ''moveto z 0.00'',
         '';;;; Collect frames sample position 1'', ''setexp 0.50'',
         ''setbinning 2'', ''collect sample1_fov1_08980.0_eV_000of002.xrm'',
         ''collect sample1_fov1_08980.0_eV_001of002.xrm'',
         '';;;; Move to sample position 0'', ''moveto x 0.00'',
         ''moveto y 0.00'', ''moveto z 0.00'',
         '';;;; Collect frames sample position 0'', ''setexp 0.50'',
         ''setbinning 2'', ''collect sample1_fov0_08980.0_eV_000of002.xrm'',
         ''collect sample1_fov0_08980.0_eV_001of002.xrm'',
         '';;;; Move to reference position'', ''moveto x 5.00'',
         ''moveto y 5.00'', ''moveto z 0.00'',
         '';;;; Collect reference frames'', ''setexp 0.50'', ''setbinning 2'',
         ''collect ref_sample1_08980.0_eV_000of001.xrm''],
      scaninfo =
        [''ref_sample1_08980.0_eV_000of001.xrm'',
         ''sample1_fov1_08980.0_eV_000of002.xrm'',
         ''sample1_fov1_08980.0_eV_001of002.xrm'',
         ''sample1_fov0_08980.0_eV_000of002.xrm'',
         ''sample1_fov0_08980.0_eV_001of002.xrm'']\<rparr>"
  using reverse_traversal_keeps_fov_index
    [of rat_format scenario "''sample1''" 8980 "\<lparr>dest = [], scaninfo = []\<rparr>"]
  by (simp add: scenario_def Zoneplate_position_def fmt_2f_values fmt_07_1f_values small_numbers
      upt_conv_Cons)

subsection \<open>The file names of the scan-info file\<close>

text \<open>
  Claim C1 asks that the scan-info file lists the file names in the order of the
  \<^verbatim>\<open>collect\<close> lines of the script. The code writes the name of a reference frame to the
  scan-info file while it builds the reference block, before the sample frames of the
  step, also when the block itself is written after them. In the scenario the second
  energy step (8980 eV) collects the samples first and the reference frame last, but the
  scan-info file lists the reference frame first: the two sequences differ.
\<close>

theorem scaninfo_order_differs_in_abba_mode:
  "fst (ssrl6_xanes_script rat_format scenario no_files) = Inr ()
   \<and> collect_filenames (dest_file (snd (ssrl6_xanes_script rat_format scenario no_files))) =
       [''ref_sample1_08950.0_eV_000of001.xrm'',
        ''sample1_fov0_08950.0_eV_000of002.xrm'',
        ''sample1_fov0_08950.0_eV_001of002.xrm'',
        ''sample1_fov1_08950.0_eV_000of002.xrm'',
        ''sample1_fov1_08950.0_eV_001of002.xrm'',
        ''sample1_fov1_08980.0_eV_000of002.xrm'',
        ''sample1_fov1_08980.0_eV_001of002.xrm'',
        ''sample1_fov0_08980.0_eV_000of002.xrm'',
        ''sample1_fov0_08980.0_eV_001of002.xrm'',
        ''ref_sample1_08980.0_eV_000of001.xrm'']
   \<and> map_option scaninfo_filenames
         (scaninfo_file (snd (ssrl6_xanes_script rat_format scenario no_files))) =
       Some [''ref_sample1_08950.0_eV_000of001.xrm'',
        ''sample1_fov0_08950.0_eV_000of002.xrm'',
        ''sample1_fov0_08950.0_eV_001of002.xrm'',
        ''sample1_fov1_08950.0_eV_000of002.xrm'',
        ''sample1_fov1_08950.0_eV_001of002.xrm'',
        ''ref_sample1_08980.0_eV_000of001.xrm'',
        ''sample1_fov1_08980.0_eV_000of002.xrm'',
        ''sample1_fov1_08980.0_eV_001of002.xrm'',
        ''sample1_fov0_08980.0_eV_000of002.xrm'',
        ''sample1_fov0_08980.0_eV_001of002.xrm'']"
  by (simp add: scenario_run collect_filenames_def scaninfo_filenames_def)

subsection \<open>The rest between iterations\<close>

lemma step_lines_no_wait:
  "frame_rest A = 0 \<Longrightarrow> l \<in> set (step_lines F A nm rf E) \<Longrightarrow> take 4 l \<noteq> ''wait''"
  by (auto simp: step_lines_def setup_lines_def ref_block_lines_def sample_lines_def
      sample_block_lines_def collect_lines_def pos_template_def exposure_str_def
      split: if_splits)

lemma iteration_lines_no_wait:
  "frame_rest A = 0 \<Longrightarrow> l \<in> set (iteration_lines F A nm) \<Longrightarrow> take 4 l \<noteq> ''wait''"
  by (auto simp: iteration_lines_def pos_template_def dest: step_lines_no_wait)

lemma ssrl6_never_waits_between_iterations:
  assumes "frame_rest A = 0" and "iterations A \<noteq> []"
  shows "fst (ssrl6_xanes_script F A fs) = Inr ()"
    and "filter (\<lambda>l. take 4 l = ''wait'')
           (drop (length (dest_file fs)) (dest_file (snd (ssrl6_xanes_script F A fs)))) = []"
  using assms
  by (auto simp: ssrl6_xanes_script_eq filter_empty_conv dest: iteration_lines_no_wait)

text \<open>
  Claim C2 asks for a \<^verbatim>\<open>wait\<close> line after every iteration but the last when
  \<open>iteration_rest\<close> is set. The test of the code stands after the loop, where the loop
  variable is the last identifier, so it never writes the line. With the two
  iterations \<^verbatim>\<open>sample1\<close> and \<^verbatim>\<open>sample2\<close> and a rest of 60 seconds the call returns
  and the script has no \<^verbatim>\<open>wait\<close> line at all.
\<close>

theorem no_wait_between_iterations:
  "fst (ssrl6_xanes_script rat_format
          (scenario\<lparr>iterations := [''sample1'', ''sample2''], iteration_rest := 60\<rparr>) no_files)
     = Inr ()
   \<and> filter (\<lambda>l. take 4 l = ''wait'') (dest_file (snd (ssrl6_xanes_script rat_format
          (scenario\<lparr>iterations := [''sample1'', ''sample2''], iteration_rest := 60\<rparr>) no_files)))
     = []"
  using ssrl6_never_waits_between_iterations
    [where A = "scenario\<lparr>iterations := [''sample1'', ''sample2''], iteration_rest := 60\<rparr>"
       and F = rat_format and fs = no_files]
  by (simp add: scenario_def no_files_def)

subsection \<open>Resting before the reference frames\<close>

text \<open>
  Claim C10. In a call that returns with \<open>frame_rest\<close> set, \<open>abba_mode\<close> is off, so the
  flag \<open>ref_first\<close> is true at every energy step of every iteration: the loop over the
  energies runs every step with the flag true. The reference block of a step then has its
  \<^verbatim>\<open>wait\<close> line after the move to the reference position and before the exposures of
  the reference frames, and no \<^verbatim>\<open>wait\<close> line after them: the branch guarded by
  \<open>frame_rest\<close> and the negated flag is never taken. In the script every step is the
  setup, the reference block with the \<^verbatim>\<open>wait\<close> line in that place, and the samples in
  forward order.
\<close>

theorem frame_rest_keeps_reference_first:
  assumes "frame_rest A \<noteq> 0" and "fst (ssrl6_xanes_script F A fs) = Inr ()"
  shows "ref_first_trace (abba_mode A) True Es = replicate (length Es) True
   \<and> energy_loop F A nm True Es s = fold (energy_step F A nm True) Es s
   \<and> fst (reference_block F A nm True E s) =
       ['';;;; Move to reference position''] @ pos_template F (reference_position A)
       @ [''wait '' @ str_int (frame_rest A)]
       @ ['';;;; Collect reference frames''] @ exposure_str F A
       @ collect_lines (ref_files F A nm E)
   \<and> dest_file (snd (ssrl6_xanes_script F A fs)) =
       dest_file fs
       @ concat (map (\<lambda>nm.
           ['';; 2D XANES ;;'']
           @ concat (map (\<lambda>E.
                 setup_lines F A E
                 @ ['';;;; Move to reference position''] @ pos_template F (reference_position A)
                 @ [''wait '' @ str_int (frame_rest A)]
                 @ ['';;;; Collect reference frames''] @ exposure_str F A
                 @ collect_lines (ref_files F A nm E)
                 @ sample_lines F A nm E [0..<length (positions A)])
               (energies A))
           @ ['';;;; Park at reference position''] @ pos_template F (reference_position A))
         (iterations A))"
proof -
  have na: "\<not> abba_mode A"
    using assms by (auto simp: ssrl6_returns_iff)
  have tr: "ref_first_trace False True Es' = replicate (length Es') True" for Es' :: "'b list"
    by (induction Es') simp_all
  have el: "energy_loop F A nm' True Es' s' = fold (energy_step F A nm' True) Es' s'" for nm' Es' s'
    using na by (induction Es' arbitrary: s') simp_all
  have rb: "ref_block_lines F A nm' True E' =
       ['';;;; Move to reference position''] @ pos_template F (reference_position A)
       @ [''wait '' @ str_int (frame_rest A)]
       @ ['';;;; Collect reference frames''] @ exposure_str F A
       @ collect_lines (ref_files F A nm' E')" for nm' E'
    using assms(1) by (simp add: ref_block_lines_def)
  have zipmap: "concat (map (\<lambda>(r, E). step_lines F A nm' r E) (zip (replicate (length Es') True) Es'))
        = concat (map (\<lambda>E. step_lines F A nm' True E) Es')" for nm' Es'
    by (induction Es') simp_all
  have step: "step_lines F A nm' True E' =
       setup_lines F A E'
       @ ['';;;; Move to reference position''] @ pos_template F (reference_position A)
       @ [''wait '' @ str_int (frame_rest A)]
       @ ['';;;; Collect reference frames''] @ exposure_str F A
       @ collect_lines (ref_files F A nm' E')
       @ sample_lines F A nm' E' [0..<length (positions A)]" for nm' E'
    by (simp add: step_lines_def visit_order_def rb)
  have il: "iteration_lines F A = (\<lambda>nm.
           ['';; 2D XANES ;;'']
           @ concat (map (\<lambda>E.
                 setup_lines F A E
                 @ ['';;;; Move to reference position''] @ pos_template F (reference_position A)
                 @ [''wait '' @ str_int (frame_rest A)]
                 @ ['';;;; Collect reference frames''] @ exposure_str F A
                 @ collect_lines (ref_files F A nm E)
                 @ sample_lines F A nm E [0..<length (positions A)])
               (energies A))
           @ ['';;;; Park at reference position''] @ pos_template F (reference_position A))"
    using na by (rule_tac ext) (simp only: iteration_lines_def tr zipmap step)
  have out: "dest_file (snd (ssrl6_xanes_script F A fs)) =
          dest_file fs @ concat (map (iteration_lines F A) (iterations A))"
    using na by (auto simp: ssrl6_xanes_script_eq)
  show ?thesis
    using na tr [of Es] el [of nm Es s] rb [of nm E] out
    unfolding il by (simp add: reference_block_eq)
qed

theorem frame_rest_keeps_reference_first_witness:
  "frame_rest (scenario\<lparr>frame_rest := 5, abba_mode := False\<rparr>) \<noteq> 0
   \<and> fst (ssrl6_xanes_script rat_format (scenario\<lparr>frame_rest := 5, abba_mode := False\<rparr>) no_files) = Inr ()
   \<and> ref_first_trace (abba_mode (scenario\<lparr>frame_rest := 5, abba_mode := False\<rparr>)) True (energies (scenario\<lparr>frame_rest := 5, abba_mode := False\<rparr>)) = [True, True]
   \<and> energy_loop rat_format (scenario\<lparr>frame_rest := 5, abba_mode := False\<rparr>) ''sample1'' True (energies (scenario\<lparr>frame_rest := 5, abba_mode := False\<rparr>)) \<lparr>dest = [], scaninfo = []\<rparr> =
       energy_step rat_format (scenario\<lparr>frame_rest := 5, abba_mode := False\<rparr>) ''sample1'' True 8980
         (energy_step rat_format (scenario\<lparr>frame_rest := 5, abba_mode := False\<rparr>) ''sample1'' True 8950 \<lparr>dest = [], scaninfo = []\<rparr>)
   \<and> fst (reference_block rat_format (scenario\<lparr>frame_rest := 5, abba_mode := False\<rparr>) ''sample1'' True 8950 \<lparr>dest = [], scaninfo = []\<rparr>) =
       ['';;;; Move to reference position'', ''moveto x 5.00'', ''moveto y 5.00'',
        ''moveto z 0.00'', ''wait 5'', '';;;; Collect reference frames'', ''setexp 0.50'',
        ''setbinning 2'', ''collect ref_sample1_08950.0_eV_000of001.xrm'']
   \<and> filter (\<lambda>l. take 4 l = ''wait'' \<or> take 11 l = ''collect ref'')
         (dest_file (snd (ssrl6_xanes_script rat_format (scenario\<lparr>frame_rest := 5, abba_mode := False\<rparr>) no_files))) =
       [''wait 5'', ''collect ref_sample1_08950.0_eV_000of001.xrm'',
        ''wait 5'', ''collect ref_sample1_08980.0_eV_000of001.xrm'']"
  using frame_rest_keeps_reference_first
    [where A = "scenario\<lparr>frame_rest := 5, abba_mode := False\<rparr>" and F = rat_format and fs = no_files
       and Es = "energies (scenario\<lparr>frame_rest := 5, abba_mode := False\<rparr>)" and nm = "''sample1''" and E = 8950
       and s = "\<lparr>dest = [], scaninfo = []\<rparr>"]
  by (simp add: ssrl6_returns_iff scenario_def no_files_def
      setup_lines_def sample_lines_def sample_block_lines_def
      ref_files_def sam_files_def collect_lines_def pos_template_def exposure_str_def
      ref_template_def sam_template_def Zoneplate_position_def
      fmt_2f_values fmt_07_1f_values small_numbers upt_conv_Cons
      str_int_def str_nat.simps digit_def)

subsection \<open>Constructing a calibration\<close>



subsection \<open>The position at the calibration points\<close>

lemma bit_length_numeral [simp]:
  "bit_length 0 = 0"
  "bit_length (Suc 0) = 1"
  "bit_length (numeral Num.One) = 1"
  "bit_length (numeral (Num.Bit0 k)) = Suc (bit_length (numeral k))"
  "bit_length (numeral (Num.Bit1 k)) = Suc (bit_length (numeral k))"
proof -
  show "bit_length 0 = 0" by (simp add: bit_length.simps)
  show "bit_length (Suc 0) = 1" by (simp add: bit_length.simps)
  show "bit_length (numeral Num.One) = 1" by (simp add: bit_length.simps)
  show "bit_length (numeral (Num.Bit0 k)) = Suc (bit_length (numeral k))"
    by (subst bit_length.simps) simp
  show "bit_length (numeral (Num.Bit1 k)) = Suc (bit_length (numeral k))"
    by (subst bit_length.simps) simp
qed

lemma floor_numeral_quotient:
  "\<lfloor>(numeral a :: rat) / numeral b\<rfloor> = numeral a div numeral b"
  using floor_divide_of_int_eq [of "numeral a" "numeral b", where ?'a = rat] by simp

lemma ceiling_numeral_quotient:
  "\<lceil>(numeral a :: rat) / numeral b\<rceil> = - ((- numeral a) div numeral b)"
  using floor_divide_of_int_eq [of "- numeral a" "numeral b", where ?'a = rat]
  by (simp add: ceiling_def)

lemmas f64_eval =
  f64_round_def binade_def pow2_def round_half_even_def Let_def floor_numeral_quotient
  ceiling_numeral_quotient


lemma f64_round_known_values:
  "f64_round (1 / 10) = Finite (3602879701896397 / 36028797018963968)"
  "f64_round (1 / 3) = Finite (6004799503160661 / 18014398509481984)"
  "f64_round (18014398509481985 / 2) = Finite 9007199254740992"
  by (simp_all add: f64_eval)




subsection \<open>The warm-up sweep of the second script\<close>

















end
